theory Spec2Isabelle
  imports Main "HOL-Library.Word"
begin

unbundle bit_operations_syntax

section \<open>Machine types\<close>

text \<open>
  The monitor and the kernel are built for a 64-bit RISC-V platform (the README names the
  SiFive Freedom U SDK kernel and root file system), so \<open>unsigned long\<close>, \<open>uintptr_t\<close>,
  \<open>size_t\<close>, \<open>ssize_t\<close> and \<open>loff_t\<close> are 64-bit words and \<open>int\<close> is a 32-bit word.
  Signed readings are taken with \<open>sint\<close>.
\<close>

type_synonym ulong = "64 word"
type_synonym uintptr_t = "64 word"
type_synonym cint = "32 word"

section \<open>The SBI base-extension dispatcher (sbi\_ecall\_base.c)\<close>

subsection \<open>Constants of headers that are not part of the sources\<close>

text \<open>
  The function ids, the error code and the version constants come from
  \<open>sbi_ecall_interface.h\<close>, \<open>sbi_error.h\<close> and \<open>sbi_version.h\<close>. Their values are
  parameters of the model. The version numbers and the mask, which the dispatcher shifts
  and masks before it stores them, are \<open>int\<close> constants.
\<close>

record sbi_consts =
  SBI_EXT_BASE_GET_SPEC_VERSION :: ulong
  SBI_EXT_BASE_GET_IMP_ID :: ulong
  SBI_EXT_BASE_GET_IMP_VERSION :: ulong
  SBI_EXT_BASE_GET_MVENDORID :: ulong
  SBI_EXT_BASE_GET_MARCHID :: ulong
  SBI_EXT_BASE_GET_MIMPID :: ulong
  SBI_EXT_BASE_PROBE_EXT :: ulong
  SBI_MM_INIT :: ulong
  SBI_MEMORY_EXTEND :: ulong
  SBI_ALLOC_ENCLAVE_MM :: ulong
  SBI_CREATE_ENCLAVE :: ulong
  SBI_RUN_ENCLAVE :: ulong
  SBI_EXIT_ENCLAVE :: ulong
  SBI_ENOTSUPP :: cint
  SBI_ECALL_VERSION_MAJOR :: cint
  SBI_ECALL_VERSION_MINOR :: cint
  SBI_SPEC_VERSION_MAJOR_OFFSET :: nat
  SBI_SPEC_VERSION_MAJOR_MASK :: cint
  SBI_OPENSBI_IMPID :: ulong
  OPENSBI_VERSION :: ulong

text \<open>The case labels of the dispatcher's \<open>switch\<close>, in source order.\<close>

definition case_labels :: "sbi_consts \<Rightarrow> ulong list" where
  "case_labels c =
     [SBI_EXT_BASE_GET_SPEC_VERSION c, SBI_EXT_BASE_GET_IMP_ID c,
      SBI_EXT_BASE_GET_IMP_VERSION c, SBI_EXT_BASE_GET_MVENDORID c,
      SBI_EXT_BASE_GET_MARCHID c, SBI_EXT_BASE_GET_MIMPID c,
      SBI_EXT_BASE_PROBE_EXT c, SBI_MM_INIT c, SBI_MEMORY_EXTEND c,
      SBI_ALLOC_ENCLAVE_MM c, SBI_CREATE_ENCLAVE c, SBI_RUN_ENCLAVE c,
      SBI_EXIT_ENCLAVE c]"


text \<open>The three machine identification registers read with \<open>csr_read\<close>.\<close>

record csr_file =
  CSR_MVENDORID :: ulong
  CSR_MARCHID :: ulong
  CSR_MIMPID :: ulong

subsection \<open>The secure-monitor handlers and the extension table\<close>

text \<open>
  The six \<open>sm_*\<close> handlers are declared \<open>extern\<close>; each takes its arguments and the
  monitor state \<open>'s\<close> and gives back its \<open>uintptr_t\<close> result with the new state.
\<close>

record 's sm_handlers =
  sm_mm_init :: "uintptr_t \<Rightarrow> ulong \<Rightarrow> 's \<Rightarrow> uintptr_t \<times>
        's"
  sm_mm_extend :: "uintptr_t \<Rightarrow> ulong \<Rightarrow> 's \<Rightarrow> uintptr_t
        \<times> 's"
  sm_alloc_enclave_mem :: "uintptr_t \<Rightarrow> 's \<Rightarrow> uintptr_t \<times> 's"
  sm_create_enclave :: "uintptr_t \<Rightarrow> 's \<Rightarrow> uintptr_t \<times> 's"
  sm_run_enclave :: "uintptr_t \<Rightarrow> ulong \<Rightarrow> 's \<Rightarrow> uintptr_t
        \<times> 's"
  sm_exit_enclave :: "uintptr_t \<Rightarrow> ulong \<Rightarrow> 's \<Rightarrow> uintptr_t
        \<times> 's"

text \<open>One entry of the log of handler invocations kept by the model.\<close>

datatype sm_call =
    Call_sm_mm_init uintptr_t ulong
  | Call_sm_mm_extend uintptr_t ulong
  | Call_sm_alloc_enclave_mem uintptr_t
  | Call_sm_create_enclave uintptr_t
  | Call_sm_run_enclave uintptr_t ulong
  | Call_sm_exit_enclave uintptr_t ulong

text \<open>
  \<open>struct sbi_ecall_extension\<close>: the id range and the optional \<open>probe\<close> callback
  (\<open>None\<close> is the NULL function pointer). A probe callback receives the scratch
  pointer, the extension id and the current content of \<open>*out_val\<close>, and gives back its
  \<open>int\<close> status, the content of \<open>*out_val\<close> afterwards and the new state.
\<close>

record 's sbi_ecall_extension =
  extid_start :: ulong
  extid_end :: ulong
  probe :: "(ulong \<Rightarrow> ulong \<Rightarrow> ulong \<Rightarrow> 's \<Rightarrow> cint
        \<times> ulong \<times> 's) option"

text \<open>
  What a call of the dispatcher leaves behind: its \<open>int\<close> return value, the content of
  \<open>*out_val\<close>, the monitor state and the handlers it invoked, in order.
\<close>

record 's ecall_outcome =
  ret :: cint
  out_val :: ulong
  sm_state :: 's
  sm_calls :: "sm_call list"

subsection \<open>sbi\_ecall\_base\_probe\<close>

text \<open>
  \<open>sbi_ecall_find_extension\<close> lives in \<open>sbi_ecall.c\<close>; the lookup is the parameter
  \<open>find_ext\<close>, with \<open>None\<close> for the NULL result.
\<close>

definition sbi_ecall_base_probe ::
  "(ulong \<Rightarrow> 's sbi_ecall_extension option) \<Rightarrow> ulong \<Rightarrow> ulong
        \<Rightarrow> ulong \<Rightarrow> 's
     \<Rightarrow> cint \<times> ulong \<times> 's" where
  "sbi_ecall_base_probe find_ext scratch extid ov s =
     (case find_ext extid of
        None \<Rightarrow> (0, 0, s)
      | Some ext \<Rightarrow>
          (case probe ext of
             Some p \<Rightarrow> p scratch extid ov s
           | None \<Rightarrow> (0, 1, s)))"

subsection \<open>sbi\_ecall\_base\_handler\<close>

text \<open>
  The argument array \<open>unsigned long *args\<close> is read as \<open>args i\<close>. The \<open>switch\<close> is a
  chain of comparisons in the order of its labels. Every \<open>sm_*\<close> result is a
  \<open>uintptr_t\<close> assigned to \<open>int ret\<close>: the conversion \<open>ucast\<close> keeps the low 32 bits.
  The specification version is shifted and masked in \<open>int\<close> and sign-extended
  (\<open>scast\<close>) when it is stored in \<open>*out_val\<close>, as is the minor number that is or-ed in.
  \<open>out_trap\<close> is never touched and has no place in the model.
\<close>

definition sm_outcome :: "ulong \<Rightarrow> sm_call \<Rightarrow> uintptr_t \<times> 's
      \<Rightarrow> 's ecall_outcome" where
  "sm_outcome ov call r =
     \<lparr>ret = ucast (fst r), out_val = ov, sm_state = snd r, sm_calls = [call]\<rparr>"

definition base_outcome :: "ulong \<Rightarrow> 's \<Rightarrow> 's ecall_outcome" where
  "base_outcome v s = \<lparr>ret = 0, out_val = v, sm_state = s, sm_calls = []\<rparr>"

definition sbi_ecall_base_handler ::
  "sbi_consts \<Rightarrow> csr_file \<Rightarrow> (ulong \<Rightarrow> 's sbi_ecall_extension
        option) \<Rightarrow> 's sm_handlers
     \<Rightarrow> ulong \<Rightarrow> ulong \<Rightarrow> ulong \<Rightarrow> (nat \<Rightarrow>
           ulong) \<Rightarrow> ulong \<Rightarrow> 's \<Rightarrow> 's ecall_outcome" where
  "sbi_ecall_base_handler c csr find_ext h scratch extid funcid args ov s =
     (if funcid = SBI_EXT_BASE_GET_SPEC_VERSION c then
        base_outcome
          (scast ((push_bit (SBI_SPEC_VERSION_MAJOR_OFFSET c) (SBI_ECALL_VERSION_MAJOR c))
                   AND (push_bit (SBI_SPEC_VERSION_MAJOR_OFFSET c)
                          (SBI_SPEC_VERSION_MAJOR_MASK c)))
            OR scast (SBI_ECALL_VERSION_MINOR c)) s
      else if funcid = SBI_EXT_BASE_GET_IMP_ID c then base_outcome (SBI_OPENSBI_IMPID c) s
      else if funcid = SBI_EXT_BASE_GET_IMP_VERSION c then base_outcome (OPENSBI_VERSION c) s
      else if funcid = SBI_EXT_BASE_GET_MVENDORID c then base_outcome (CSR_MVENDORID csr) s
      else if funcid = SBI_EXT_BASE_GET_MARCHID c then base_outcome (CSR_MARCHID csr) s
      else if funcid = SBI_EXT_BASE_GET_MIMPID c then base_outcome (CSR_MIMPID csr) s
      else if funcid = SBI_EXT_BASE_PROBE_EXT c then
        (case sbi_ecall_base_probe find_ext scratch (args 0) ov s of
           (r, ov', s') \<Rightarrow> \<lparr>ret = r, out_val = ov', sm_state = s', sm_calls =
                 []\<rparr>)
      else if funcid = SBI_MM_INIT c then
        sm_outcome ov (Call_sm_mm_init (args 0) (args 1)) (sm_mm_init h (args 0) (args 1) s)
      else if funcid = SBI_MEMORY_EXTEND c then
        sm_outcome ov (Call_sm_mm_extend (args 0) (args 1)) (sm_mm_extend h (args 0) (args 1) s)
      else if funcid = SBI_ALLOC_ENCLAVE_MM c then
        sm_outcome ov (Call_sm_alloc_enclave_mem (args 0)) (sm_alloc_enclave_mem h (args 0) s)
      else if funcid = SBI_CREATE_ENCLAVE c then
        sm_outcome ov (Call_sm_create_enclave (args 0)) (sm_create_enclave h (args 0) s)
      else if funcid = SBI_RUN_ENCLAVE c then
        sm_outcome ov (Call_sm_run_enclave (args 5) (args 0)) (sm_run_enclave h (args 5) (args 0)
              s)
      else if funcid = SBI_EXIT_ENCLAVE c then
        sm_outcome ov (Call_sm_exit_enclave (args 5) (args 0)) (sm_exit_enclave h (args 5) (args
              0) s)
      else \<lparr>ret = SBI_ENOTSUPP c, out_val = ov, sm_state = s, sm_calls = []\<rparr>)"

text \<open>
  The register-save-area pointers that a log of invocations shows handed to the run and
  exit handlers.
\<close>

fun regs_pointers :: "sm_call list \<Rightarrow> uintptr_t list" where
  "regs_pointers [] = []"
| "regs_pointers (Call_sm_run_enclave regs eid # cs) = regs # regs_pointers cs"
| "regs_pointers (Call_sm_exit_enclave regs retval # cs) = regs # regs_pointers cs"
| "regs_pointers (_ # cs) = regs_pointers cs"

text \<open>A \<open>uintptr_t\<close> whose signed reading lies in the range of \<open>int\<close>.\<close>

definition fits_int :: "uintptr_t \<Rightarrow> bool" where
  "fits_int r = (- (2 ^ 31) \<le> sint r \<and> sint r < 2 ^ 31)"

section \<open>The IMA securityfs interface (ima\_fs.c)\<close>

type_synonym size_t = "64 word"
type_synonym ssize_t = "64 word"
type_synonym loff_t = "64 word"

subsection \<open>Dentries and the file-static variables\<close>

text \<open>
  A \<open>struct dentry *\<close> is NULL, an error pointer or the address of a dentry.
  \<open>IS_ERR\<close> holds of error pointers only.
\<close>

datatype dentry_ptr = NULL | ERR_PTR ssize_t | Dentry nat

fun IS_ERR :: "dentry_ptr \<Rightarrow> bool" where
  "IS_ERR (ERR_PTR e) = True"
| "IS_ERR _ = False"

record ima_statics =
  ima_dir :: dentry_ptr
  ima_symlink :: dentry_ptr
  binary_runtime_measurements :: dentry_ptr
  ascii_runtime_measurements :: dentry_ptr
  runtime_measurements_count :: dentry_ptr
  violations :: dentry_ptr
  ima_policy :: dentry_ptr
  digests_count :: dentry_ptr
  digest_list_data :: dentry_ptr
  digest_list_data_del :: dentry_ptr
  valid_policy :: cint

text \<open>The statics as the C file initialises them: every pointer NULL, \<open>valid_policy = 1\<close>.\<close>

definition initial_statics :: ima_statics where
  "initial_statics =
     \<lparr>ima_dir = NULL, ima_symlink = NULL, binary_runtime_measurements = NULL,
      ascii_runtime_measurements = NULL, runtime_measurements_count = NULL,
      violations = NULL, ima_policy = NULL, digests_count = NULL,
      digest_list_data = NULL, digest_list_data_del = NULL, valid_policy = 1\<rparr>"

subsection \<open>securityfs\<close>

text \<open>
  What \<open>ima_fs_init\<close> registers: every securityfs object has its dentry address, its
  name and either the file operations installed on it or the mark of a directory or
  symlink. \<open>securityfs_create_*\<close> and \<open>securityfs_remove\<close> belong to \<open>security/inode.c\<close>;
  the model assumes of them that a creation either fails with an error pointer or
  registers the object under a dentry no other live object has, and that removal
  unregisters a dentry and ignores NULL and error pointers. Which creations fail, and with
  which error, is the parameter \<open>fails\<close>.
\<close>

datatype file_operations =
    ima_measurements_ops
  | ima_ascii_measurements_ops
  | ima_htable_value_ops
  | ima_data_upload_ops

datatype inode_kind = Directory | Symlink | File file_operations

record securityfs =
  entries :: "(nat \<times> string \<times> inode_kind) list"
  next_dentry :: nat

definition securityfs_create ::
  "(string \<Rightarrow> inode_kind \<Rightarrow> ssize_t option) \<Rightarrow> string
        \<Rightarrow> inode_kind \<Rightarrow> securityfs
     \<Rightarrow> dentry_ptr \<times> securityfs" where
  "securityfs_create fails name kind fs =
     (case fails name kind of
        Some e \<Rightarrow> (ERR_PTR e, fs)
      | None \<Rightarrow>
          (Dentry (next_dentry fs),
           fs\<lparr>entries := entries fs @ [(next_dentry fs, name, kind)],
              next_dentry := Suc (next_dentry fs)\<rparr>))"

fun securityfs_remove :: "dentry_ptr \<Rightarrow> securityfs \<Rightarrow> securityfs" where
  "securityfs_remove (Dentry n) fs = fs\<lparr>entries := filter (\<lambda>e. fst e \<noteq> n)
        (entries fs)\<rparr>"
| "securityfs_remove _ fs = fs"

subsection \<open>ima\_fs\_init\<close>

text \<open>The \<open>out:\<close> label: the ten removals in source order, and the result \<open>-1\<close>.\<close>

definition ima_fs_init_out :: "ima_statics \<Rightarrow> securityfs \<Rightarrow> cint \<times>
      ima_statics \<times> securityfs" where
  "ima_fs_init_out g fs =
     (- 1, g,
      foldl (\<lambda>fs' d. securityfs_remove d fs') fs
        [digest_list_data_del g, digest_list_data g, digests_count g, violations g,
         runtime_measurements_count g, ascii_runtime_measurements g,
         binary_runtime_measurements g, ima_symlink g, ima_dir g, ima_policy g])"

text \<open>
  One step \<open>X = securityfs_create_...(...); if (IS_ERR(X)) goto out;\<close>: \<open>store\<close> assigns the
  static \<open>X\<close>, \<open>rest\<close> is the code after the step.
\<close>

definition create_or_out ::
  "dentry_ptr \<times> securityfs \<Rightarrow> (dentry_ptr \<Rightarrow> ima_statics
        \<Rightarrow> ima_statics) \<Rightarrow> ima_statics
     \<Rightarrow> (ima_statics \<Rightarrow> securityfs \<Rightarrow> cint \<times> ima_statics
           \<times> securityfs)
     \<Rightarrow> cint \<times> ima_statics \<times> securityfs" where
  "create_or_out created store g rest =
     (if IS_ERR (fst created) then ima_fs_init_out (store (fst created) g) (snd created)
      else rest (store (fst created) g) (snd created))"

text \<open>
  \<open>config_digest_list\<close> is \<open>CONFIG_IMA_DIGEST_LIST\<close>. The first step returns \<open>-1\<close> at
  once when the directory cannot be created; every later one goes to \<open>out:\<close>.
\<close>

definition ima_fs_init ::
  "bool \<Rightarrow> (string \<Rightarrow> inode_kind \<Rightarrow> ssize_t option)
        \<Rightarrow> ima_statics \<Rightarrow> securityfs
     \<Rightarrow> cint \<times> ima_statics \<times> securityfs" where
  "ima_fs_init config_digest_list fails g0 fs0 =
     (case securityfs_create fails ''ima'' Directory fs0 of
        (dir, fs1) \<Rightarrow>
          if IS_ERR dir then (- 1, g0\<lparr>ima_dir := dir\<rparr>, fs1)
          else
       create_or_out (securityfs_create fails ''ima'' Symlink fs1)
         (\<lambda>d g. g\<lparr>ima_symlink := d\<rparr>) (g0\<lparr>ima_dir := dir\<rparr>)
               (\<lambda>g fs.
       create_or_out (securityfs_create fails ''binary_runtime_measurements''
           (File ima_measurements_ops) fs)
         (\<lambda>d g. g\<lparr>binary_runtime_measurements := d\<rparr>) g (\<lambda>g fs.
       create_or_out (securityfs_create fails ''ascii_runtime_measurements''
           (File ima_ascii_measurements_ops) fs)
         (\<lambda>d g. g\<lparr>ascii_runtime_measurements := d\<rparr>) g (\<lambda>g fs.
       create_or_out (securityfs_create fails ''runtime_measurements_count''
           (File ima_htable_value_ops) fs)
         (\<lambda>d g. g\<lparr>runtime_measurements_count := d\<rparr>) g (\<lambda>g fs.
       create_or_out (securityfs_create fails ''violations'' (File ima_htable_value_ops) fs)
         (\<lambda>d g. g\<lparr>violations := d\<rparr>) g (\<lambda>g fs.
       create_or_out (securityfs_create fails ''policy'' (File ima_data_upload_ops) fs)
         (\<lambda>d g. g\<lparr>ima_policy := d\<rparr>) g (\<lambda>g fs.
       if config_digest_list then
         create_or_out (securityfs_create fails ''digests_count'' (File ima_htable_value_ops) fs)
           (\<lambda>d g. g\<lparr>digests_count := d\<rparr>) g (\<lambda>g fs.
         create_or_out (securityfs_create fails ''digest_list_data'' (File ima_data_upload_ops) fs)
           (\<lambda>d g. g\<lparr>digest_list_data := d\<rparr>) g (\<lambda>g fs.
         create_or_out (securityfs_create fails ''digest_list_data_del''
             (File ima_data_upload_ops) fs)
           (\<lambda>d g. g\<lparr>digest_list_data_del := d\<rparr>) g (\<lambda>g fs. (0, g,
                 fs))))
       else (0, g, fs))))))))"

subsection \<open>ima\_show\_htable\_value\<close>

text \<open>
  The three counters that \<open>val\<close> can point to; \<open>None\<close> is \<open>val = NULL\<close>. The branch for
  \<open>digests_count\<close> exists only under \<open>CONFIG_IMA_DIGEST_LIST\<close>.
\<close>

datatype htable_counter = Ima_htable_violations | Ima_htable_len | Ima_digests_htable_len

definition htable_val :: "bool \<Rightarrow> ima_statics \<Rightarrow> dentry_ptr \<Rightarrow>
      htable_counter option" where
  "htable_val config_digest_list g dentry =
     (if dentry = violations g then Some Ima_htable_violations
      else if dentry = runtime_measurements_count g then Some Ima_htable_len
      else if config_digest_list \<and> dentry = digests_count g then Some Ima_digests_htable_len
      else None)"

text \<open>
  \<open>atomic_long_read(val)\<close> with \<open>val = NULL\<close> is a NULL dereference: the read faults
  instead of returning. \<open>scnprintf\<close> with \<open>"%li\n"\<close> and \<open>simple_read_from_buffer\<close> are
  library functions and parameters here; the latter gives the byte count and the new
  \<open>*ppos\<close>.
\<close>

datatype fault = NULL_DEREFERENCE

definition ima_show_htable_value ::
  "bool \<Rightarrow> (ulong \<Rightarrow> string) \<Rightarrow> (size_t \<Rightarrow> loff_t
        \<Rightarrow> string \<Rightarrow> ssize_t \<times> loff_t)
     \<Rightarrow> ima_statics \<Rightarrow> (htable_counter \<Rightarrow> ulong) \<Rightarrow>
           dentry_ptr \<Rightarrow> size_t \<Rightarrow> loff_t
     \<Rightarrow> fault + ssize_t \<times> loff_t" where
  "ima_show_htable_value config_digest_list scnprintf_li simple_read_from_buffer g counters
       dentry count ppos =
     (case htable_val config_digest_list g dentry of
        None \<Rightarrow> Inl NULL_DEREFERENCE
      | Some val \<Rightarrow> Inr (simple_read_from_buffer count ppos (scnprintf_li (counters
            val))))"

text \<open>
  Every securityfs file that carries \<open>ima_htable_value_ops\<close> selects a counter: reading
  it through \<open>ima_show_htable_value\<close> finds \<open>val\<close> set.
\<close>

definition htable_files_covered :: "bool \<Rightarrow> ima_statics \<Rightarrow> securityfs
      \<Rightarrow> bool" where
  "htable_files_covered config_digest_list g fs =
     (\<forall>x \<in> set (entries fs). snd (snd x) = File ima_htable_value_ops \<longrightarrow>
        htable_val config_digest_list g (Dentry (fst x)) \<noteq> None)"

subsection \<open>The measurement list and its seq\_file iterator\<close>

text \<open>
  \<open>ima_measurements\<close> is a circular kernel list: \<open>list_head\<close> is the address of the
  head, \<open>later_next\<close> the \<open>next\<close> link of the head and of the \<open>later\<close> member of every
  entry. An entry is identified with the address of its \<open>later\<close> member.
\<close>

record measurement_list =
  list_head :: nat
  later_next :: "nat \<Rightarrow> nat"

text \<open>
  The body of \<open>list_for_each_entry_rcu\<close> in \<open>ima_measurements_start\<close>, from the entry
  \<open>qe\<close> on: the walk ends with NULL at the head, and with \<open>qe\<close> where \<open>!l--\<close> finds
  \<open>l = 0\<close>. The result is \<open>None\<close> where the walk never ends; \<open>Some None\<close> is NULL.
\<close>

partial_function (option) measurements_walk ::
  "measurement_list \<Rightarrow> nat \<Rightarrow> loff_t \<Rightarrow> nat option option" where
  "measurements_walk ml qe l =
     (if qe = list_head ml then Some None
      else if l = 0 then Some (Some qe)
      else measurements_walk ml (later_next ml qe) (l - 1))"

definition ima_measurements_start :: "measurement_list \<Rightarrow> loff_t \<Rightarrow> nat
      option option" where
  "ima_measurements_start ml pos = measurements_walk ml (later_next ml (list_head ml)) pos"

text \<open>\<open>ima_measurements_next\<close> gives the next entry, or NULL at the head, and \<open>*pos\<close>.\<close>

definition ima_measurements_next :: "measurement_list \<Rightarrow> nat \<Rightarrow> loff_t
      \<Rightarrow> nat option \<times> loff_t" where
  "ima_measurements_next ml v pos =
     (if later_next ml v = list_head ml then None else Some (later_next ml v), pos + 1)"

text \<open>
  The list holds the records \<open>xs\<close>, first inserted first: following the links from \<open>a\<close>
  passes the entries \<open>xs\<close> in order and then reaches the head.
\<close>

fun list_chain :: "measurement_list \<Rightarrow> nat \<Rightarrow> nat list \<Rightarrow> bool"
      where
  "list_chain ml a [] = (a = list_head ml)"
| "list_chain ml a (x # xs) = (a = x \<and> x \<noteq> list_head ml \<and> list_chain ml
      (later_next ml x) xs)"

definition holds_records :: "measurement_list \<Rightarrow> nat list \<Rightarrow> bool" where
  "holds_records ml xs = list_chain ml (later_next ml (list_head ml)) xs"

subsection \<open>ima\_write\_data\<close>

text \<open>
  The errno constants of \<open>errno-base.h\<close>, which is not part of the sources, are
  parameters; \<open>errno_ok\<close> says that each is a valid error number, between 1 and
  \<open>MAX_ERRNO = 4095\<close>.
\<close>

record errno =
  EINVAL :: ssize_t
  EFBIG :: ssize_t
  ENOMEM :: ssize_t
  EFAULT :: ssize_t
  EACCES :: ssize_t

definition valid_errno :: "ssize_t \<Rightarrow> bool" where
  "valid_errno e = (1 \<le> sint e \<and> sint e \<le> 4095)"

definition errno_ok :: "errno \<Rightarrow> bool" where
  "errno_ok e = (valid_errno (EINVAL e) \<and> valid_errno (EFBIG e) \<and> valid_errno (ENOMEM e)
     \<and> valid_errno (EFAULT e) \<and> valid_errno (EACCES e))"

datatype digest_list_op = DIGEST_LIST_OP_ADD | DIGEST_LIST_OP_DEL

text \<open>
  What \<open>ima_write_data\<close> calls outside itself. \<open>'p\<close> is the state of the policy rules and
  the digest lists, which only the parsers change. \<open>copy_from_user\<close> gives the bytes
  read from the user buffer, or \<open>None\<close> where it returns nonzero. \<open>ima_read_file\<close>, which
  loads a file by path through the VFS and feeds it to the same parsers, enters
  \<open>ima_write_data\<close> only through its result and its effect on that state, and is a
  parameter as well.
\<close>

record 'p ima_env =
  vmalloc_fails :: "size_t \<Rightarrow> bool"
  copy_from_user :: "size_t \<Rightarrow> string option"
  mutex_lock_interruptible :: ssize_t
  ima_appraise_policy :: bool
  ima_current_is_parser :: bool
  ima_read_file :: "string \<Rightarrow> dentry_ptr \<Rightarrow> 'p \<Rightarrow> ssize_t
        \<times> 'p"
  ima_parse_add_rule :: "string \<Rightarrow> 'p \<Rightarrow> ssize_t \<times> 'p"
  ima_parse_compact_list :: "size_t \<Rightarrow> string \<Rightarrow> digest_list_op
        \<Rightarrow> 'p \<Rightarrow> ssize_t \<times> 'p"

text \<open>
  The state a write can touch: the statics, the policy and digest-list state, and a log
  of the accesses to user memory and of the audit messages.
\<close>

datatype ima_event = Copy_from_user size_t | Integrity_audit_msg

record 'p ima_state =
  statics :: ima_statics
  policy :: 'p
  events :: "ima_event list"

definition add_event :: "ima_event \<Rightarrow> 'p ima_state \<Rightarrow> 'p ima_state" where
  "add_event ev st = st\<lparr>events := events st @ [ev]\<rparr>"

definition with_policy :: "'p ima_state \<Rightarrow> ssize_t \<times> 'p \<Rightarrow> ssize_t
      \<times> 'p ima_state" where
  "with_policy st r = (fst r, st\<lparr>policy := snd r\<rparr>)"

text \<open>
  The \<open>out:\<close> label: a negative result on the policy file clears \<open>valid_policy\<close>.
\<close>

definition ima_write_data_out ::
  "dentry_ptr \<Rightarrow> ssize_t \<times> 'p ima_state \<Rightarrow> ssize_t \<times> 'p
        ima_state" where
  "ima_write_data_out dentry r =
     (if dentry = ima_policy (statics (snd r)) \<and> sint (fst r) < 0
      then (fst r, (snd r)\<lparr>statics := (statics (snd r))\<lparr>valid_policy :=
            0\<rparr>\<rparr>)
      else r)"

text \<open>
  The part under \<open>ima_write_mutex\<close>: \<open>data\<close> is the copied buffer with its terminating
  NUL, so \<open>data[0]\<close> always exists.
\<close>

definition ima_write_data_locked ::
  "errno \<Rightarrow> 'p ima_env \<Rightarrow> dentry_ptr \<Rightarrow> size_t \<Rightarrow>
        string \<Rightarrow> 'p ima_state
     \<Rightarrow> ssize_t \<times> 'p ima_state" where
  "ima_write_data_locked e env dentry datalen data st =
     (if hd data = CHR ''/'' then with_policy st (ima_read_file env data dentry (policy st))
      else if dentry = ima_policy (statics st) then
        (if ima_appraise_policy env then (- EACCES e, add_event Integrity_audit_msg st)
         else with_policy st (ima_parse_add_rule env data (policy st)))
      else if dentry = digest_list_data (statics st) then
        (if \<not> ima_current_is_parser env then (- EACCES e, st)
         else with_policy st
                (ima_parse_compact_list env datalen data DIGEST_LIST_OP_ADD (policy st)))
      else if dentry = digest_list_data_del (statics st) then
        (if \<not> ima_current_is_parser env then (- EACCES e, st)
         else with_policy st
                (ima_parse_compact_list env datalen data DIGEST_LIST_OP_DEL (policy st)))
      else (- EINVAL e, st))"

definition ima_write_data ::
  "errno \<Rightarrow> 'p ima_env \<Rightarrow> dentry_ptr \<Rightarrow> size_t \<Rightarrow>
        loff_t \<Rightarrow> 'p ima_state
     \<Rightarrow> ssize_t \<times> 'p ima_state" where
  "ima_write_data e env dentry datalen ppos st =
     ima_write_data_out dentry
       (if ppos \<noteq> 0 then (- EINVAL e, st)
        else if 64 * 1024 * 1024 - 1 < datalen then (- EFBIG e, st)
        else if vmalloc_fails env (datalen + 1) then (- ENOMEM e, st)
        else
          (case copy_from_user env datalen of
             None \<Rightarrow> (- EFAULT e, add_event (Copy_from_user datalen) st)
           | Some bytes \<Rightarrow>
               if sint (mutex_lock_interruptible env) < 0
               then (mutex_lock_interruptible env, add_event (Copy_from_user datalen) st)
               else ima_write_data_locked e env dentry datalen (bytes @ [CHR 0x00])
                      (add_event (Copy_from_user datalen) st)))"

section \<open>Concrete inputs\<close>

text \<open>
  A table of pairwise distinct function ids with a negative \<open>SBI_ENOTSUPP\<close>, handlers
  that return a fixed value and count their invocations, an extension table and argument
  arrays, for running the dispatcher on concrete calls.
\<close>

definition sample_consts :: sbi_consts where
  "sample_consts =
     \<lparr>SBI_EXT_BASE_GET_SPEC_VERSION = 0, SBI_EXT_BASE_GET_IMP_ID = 1,
      SBI_EXT_BASE_GET_IMP_VERSION = 2, SBI_EXT_BASE_GET_MVENDORID = 4,
      SBI_EXT_BASE_GET_MARCHID = 5, SBI_EXT_BASE_GET_MIMPID = 6,
      SBI_EXT_BASE_PROBE_EXT = 3, SBI_MM_INIT = 100, SBI_MEMORY_EXTEND = 92,
      SBI_ALLOC_ENCLAVE_MM = 93, SBI_CREATE_ENCLAVE = 99, SBI_RUN_ENCLAVE = 97,
      SBI_EXIT_ENCLAVE = 98, SBI_ENOTSUPP = - 2,
      SBI_ECALL_VERSION_MAJOR = 0, SBI_ECALL_VERSION_MINOR = 2,
      SBI_SPEC_VERSION_MAJOR_OFFSET = 24, SBI_SPEC_VERSION_MAJOR_MASK = 0x7f,
      SBI_OPENSBI_IMPID = 1, OPENSBI_VERSION = 6\<rparr>"

definition sample_csr :: csr_file where
  "sample_csr = \<lparr>CSR_MVENDORID = 0, CSR_MARCHID = 0, CSR_MIMPID = 0\<rparr>"

definition const_handlers :: "uintptr_t \<Rightarrow> nat sm_handlers" where
  "const_handlers r =
     \<lparr>sm_mm_init = (\<lambda>paddr size s. (r, Suc s)),
      sm_mm_extend = (\<lambda>paddr size s. (r, Suc s)),
      sm_alloc_enclave_mem = (\<lambda>arg s. (r, Suc s)),
      sm_create_enclave = (\<lambda>param s. (r, Suc s)),
      sm_run_enclave = (\<lambda>regs eid s. (r, Suc s)),
      sm_exit_enclave = (\<lambda>regs retval s. (r, Suc s))\<rparr>"

definition failing_probe :: "ulong \<Rightarrow> ulong \<Rightarrow> ulong \<Rightarrow> nat
      \<Rightarrow> cint \<times> ulong \<times> nat" where
  "failing_probe scratch extid ov s = (- 2, ov, s)"

definition sample_extensions :: "ulong \<Rightarrow> nat sbi_ecall_extension option" where
  "sample_extensions extid =
     (if extid = 0x10 then Some \<lparr>extid_start = 0x10, extid_end = 0x10, probe = None\<rparr>
      else if extid = 0x09000000 then
        Some \<lparr>extid_start = 0x09000000, extid_end = 0x09FFFFFF, probe = Some
              failing_probe\<rparr>
      else None)"

definition sample_args :: "nat \<Rightarrow> ulong" where
  "sample_args i =
     (if i = 0 then 7 else if i = 1 then 0x1000 else if i = 5 then 0x80200000 else 0)"

definition null_regs_args :: "nat \<Rightarrow> ulong" where
  "null_regs_args i = (if i = 0 then 7 else 0)"


text \<open>
  Handlers that keep, as their state, the list of the first arguments they were called
  with (the address or pointer each received) and return their last argument; and an
  empty extension table.
\<close>

definition recording_handlers :: "uintptr_t list sm_handlers" where
  "recording_handlers =
     \<lparr>sm_mm_init = (\<lambda>paddr size s. (size, s @ [paddr])),
      sm_mm_extend = (\<lambda>paddr size s. (size, s @ [paddr])),
      sm_alloc_enclave_mem = (\<lambda>arg s. (arg, s @ [arg])),
      sm_create_enclave = (\<lambda>param s. (param, s @ [param])),
      sm_run_enclave = (\<lambda>regs eid s. (eid, s @ [regs])),
      sm_exit_enclave = (\<lambda>regs retval s. (retval, s @ [regs]))\<rparr>"

definition no_extensions :: "ulong \<Rightarrow> 's sbi_ecall_extension option" where
  "no_extensions extid = None"

text \<open>
  For the IMA interface: the errno values of Linux, a securityfs in which no creation
  fails, statics with the three upload files in place, an environment whose parsers count
  their calls, and a measurement list of three records.
\<close>

definition sample_errno :: errno where
  "sample_errno = \<lparr>EINVAL = 22, EFBIG = 27, ENOMEM = 12, EFAULT = 14, EACCES = 13\<rparr>"

definition no_failures :: "string \<Rightarrow> inode_kind \<Rightarrow> ssize_t option" where
  "no_failures name kind = None"

definition empty_securityfs :: securityfs where
  "empty_securityfs = \<lparr>entries = [], next_dentry = 1\<rparr>"

definition sample_counters :: "htable_counter \<Rightarrow> ulong" where
  "sample_counters val = 0"

definition sample_scnprintf_li :: "ulong \<Rightarrow> string" where
  "sample_scnprintf_li v = ''0''"

definition sample_read_from_buffer :: "size_t \<Rightarrow> loff_t \<Rightarrow> string
      \<Rightarrow> ssize_t \<times> loff_t" where
  "sample_read_from_buffer count ppos from = (0, ppos)"

definition sample_statics :: ima_statics where
  "sample_statics =
     initial_statics\<lparr>ima_policy := Dentry 6, digest_list_data := Dentry 8,
                      digest_list_data_del := Dentry 9\<rparr>"

definition sample_env :: "nat ima_env" where
  "sample_env =
     \<lparr>vmalloc_fails = (\<lambda>n. False), copy_from_user = (\<lambda>n. Some ''measure''),
      mutex_lock_interruptible = 0, ima_appraise_policy = False,
      ima_current_is_parser = True,
      ima_read_file = (\<lambda>path dentry p. (1, Suc p)),
      ima_parse_add_rule = (\<lambda>rule p. (1, Suc p)),
      ima_parse_compact_list = (\<lambda>n data op p. (1, Suc p))\<rparr>"

definition sample_state :: "nat ima_state" where
  "sample_state = \<lparr>statics = sample_statics, policy = 0, events = []\<rparr>"

definition sample_links :: "nat \<Rightarrow> nat" where
  "sample_links a = (if a = 0 then 10 else if a = 10 then 20 else if a = 20 then 30 else 0)"

definition sample_list :: measurement_list where
  "sample_list = \<lparr>list_head = 0, later_next = sample_links\<rparr>"

section \<open>Proofs: the dispatcher\<close>

lemma sint_ucast_fits:
  assumes "fits_int r"
  shows "sint (ucast r :: cint) = sint r"
proof -
  have "sint (ucast r :: cint) = signed_take_bit 31 (take_bit 32 (uint r))"
    by (simp add: sint_uint unsigned_ucast_eq)
  also have "\<dots> = signed_take_bit 31 (uint r)"
    by (simp add: signed_take_bit_take_bit)
  also have "\<dots> = signed_take_bit 31 (signed_take_bit 63 (uint r))"
    by simp
  also have "\<dots> = signed_take_bit 31 (sint r)"
    by (simp add: sint_uint)
  also have "\<dots> = sint r"
    using assms by (simp add: fits_int_def signed_take_bit_int_eq_self)
  finally show ?thesis .
qed

lemma distinct_sample_labels: "distinct (case_labels sample_consts)"
  by (simp add: case_labels_def sample_consts_def)

lemma sbi_mm_init_not_earlier:
  assumes "distinct (case_labels c)"
  shows "SBI_MM_INIT c \<noteq> SBI_EXT_BASE_GET_SPEC_VERSION c"
    "SBI_MM_INIT c \<noteq> SBI_EXT_BASE_GET_IMP_ID c"
    "SBI_MM_INIT c \<noteq> SBI_EXT_BASE_GET_IMP_VERSION c"
    "SBI_MM_INIT c \<noteq> SBI_EXT_BASE_GET_MVENDORID c"
    "SBI_MM_INIT c \<noteq> SBI_EXT_BASE_GET_MARCHID c"
    "SBI_MM_INIT c \<noteq> SBI_EXT_BASE_GET_MIMPID c"
    "SBI_MM_INIT c \<noteq> SBI_EXT_BASE_PROBE_EXT c"
  using assms by (auto simp add: case_labels_def)

lemma handler_sbi_mm_init:
  assumes "distinct (case_labels c)"
  shows "sbi_ecall_base_handler c csr find_ext h scratch extid (SBI_MM_INIT c) args ov s =
           sm_outcome ov (Call_sm_mm_init (args 0) (args 1)) (sm_mm_init h (args 0) (args 1) s)"
  using sbi_mm_init_not_earlier [OF assms] by (simp add: sbi_ecall_base_handler_def)

lemma sbi_memory_extend_not_earlier:
  assumes "distinct (case_labels c)"
  shows "SBI_MEMORY_EXTEND c \<noteq> SBI_EXT_BASE_GET_SPEC_VERSION c"
    "SBI_MEMORY_EXTEND c \<noteq> SBI_EXT_BASE_GET_IMP_ID c"
    "SBI_MEMORY_EXTEND c \<noteq> SBI_EXT_BASE_GET_IMP_VERSION c"
    "SBI_MEMORY_EXTEND c \<noteq> SBI_EXT_BASE_GET_MVENDORID c"
    "SBI_MEMORY_EXTEND c \<noteq> SBI_EXT_BASE_GET_MARCHID c"
    "SBI_MEMORY_EXTEND c \<noteq> SBI_EXT_BASE_GET_MIMPID c"
    "SBI_MEMORY_EXTEND c \<noteq> SBI_EXT_BASE_PROBE_EXT c"
    "SBI_MEMORY_EXTEND c \<noteq> SBI_MM_INIT c"
  using assms by (auto simp add: case_labels_def)

lemma handler_sbi_memory_extend:
  assumes "distinct (case_labels c)"
  shows "sbi_ecall_base_handler c csr find_ext h scratch extid (SBI_MEMORY_EXTEND c) args ov s =
           sm_outcome ov (Call_sm_mm_extend (args 0) (args 1)) (sm_mm_extend h (args 0) (args 1)
                 s)"
  using sbi_memory_extend_not_earlier [OF assms] by (simp add: sbi_ecall_base_handler_def)

lemma sbi_alloc_enclave_mm_not_earlier:
  assumes "distinct (case_labels c)"
  shows "SBI_ALLOC_ENCLAVE_MM c \<noteq> SBI_EXT_BASE_GET_SPEC_VERSION c"
    "SBI_ALLOC_ENCLAVE_MM c \<noteq> SBI_EXT_BASE_GET_IMP_ID c"
    "SBI_ALLOC_ENCLAVE_MM c \<noteq> SBI_EXT_BASE_GET_IMP_VERSION c"
    "SBI_ALLOC_ENCLAVE_MM c \<noteq> SBI_EXT_BASE_GET_MVENDORID c"
    "SBI_ALLOC_ENCLAVE_MM c \<noteq> SBI_EXT_BASE_GET_MARCHID c"
    "SBI_ALLOC_ENCLAVE_MM c \<noteq> SBI_EXT_BASE_GET_MIMPID c"
    "SBI_ALLOC_ENCLAVE_MM c \<noteq> SBI_EXT_BASE_PROBE_EXT c"
    "SBI_ALLOC_ENCLAVE_MM c \<noteq> SBI_MM_INIT c"
    "SBI_ALLOC_ENCLAVE_MM c \<noteq> SBI_MEMORY_EXTEND c"
  using assms by (auto simp add: case_labels_def)

lemma handler_sbi_alloc_enclave_mm:
  assumes "distinct (case_labels c)"
  shows "sbi_ecall_base_handler c csr find_ext h scratch extid (SBI_ALLOC_ENCLAVE_MM c) args ov s
        =
           sm_outcome ov (Call_sm_alloc_enclave_mem (args 0)) (sm_alloc_enclave_mem h (args 0) s)"
  using sbi_alloc_enclave_mm_not_earlier [OF assms] by (simp add: sbi_ecall_base_handler_def)

lemma sbi_create_enclave_not_earlier:
  assumes "distinct (case_labels c)"
  shows "SBI_CREATE_ENCLAVE c \<noteq> SBI_EXT_BASE_GET_SPEC_VERSION c"
    "SBI_CREATE_ENCLAVE c \<noteq> SBI_EXT_BASE_GET_IMP_ID c"
    "SBI_CREATE_ENCLAVE c \<noteq> SBI_EXT_BASE_GET_IMP_VERSION c"
    "SBI_CREATE_ENCLAVE c \<noteq> SBI_EXT_BASE_GET_MVENDORID c"
    "SBI_CREATE_ENCLAVE c \<noteq> SBI_EXT_BASE_GET_MARCHID c"
    "SBI_CREATE_ENCLAVE c \<noteq> SBI_EXT_BASE_GET_MIMPID c"
    "SBI_CREATE_ENCLAVE c \<noteq> SBI_EXT_BASE_PROBE_EXT c"
    "SBI_CREATE_ENCLAVE c \<noteq> SBI_MM_INIT c"
    "SBI_CREATE_ENCLAVE c \<noteq> SBI_MEMORY_EXTEND c"
    "SBI_CREATE_ENCLAVE c \<noteq> SBI_ALLOC_ENCLAVE_MM c"
  using assms by (auto simp add: case_labels_def)

lemma handler_sbi_create_enclave:
  assumes "distinct (case_labels c)"
  shows "sbi_ecall_base_handler c csr find_ext h scratch extid (SBI_CREATE_ENCLAVE c) args ov s =
           sm_outcome ov (Call_sm_create_enclave (args 0)) (sm_create_enclave h (args 0) s)"
  using sbi_create_enclave_not_earlier [OF assms] by (simp add: sbi_ecall_base_handler_def)

lemma sbi_run_enclave_not_earlier:
  assumes "distinct (case_labels c)"
  shows "SBI_RUN_ENCLAVE c \<noteq> SBI_EXT_BASE_GET_SPEC_VERSION c"
    "SBI_RUN_ENCLAVE c \<noteq> SBI_EXT_BASE_GET_IMP_ID c"
    "SBI_RUN_ENCLAVE c \<noteq> SBI_EXT_BASE_GET_IMP_VERSION c"
    "SBI_RUN_ENCLAVE c \<noteq> SBI_EXT_BASE_GET_MVENDORID c"
    "SBI_RUN_ENCLAVE c \<noteq> SBI_EXT_BASE_GET_MARCHID c"
    "SBI_RUN_ENCLAVE c \<noteq> SBI_EXT_BASE_GET_MIMPID c"
    "SBI_RUN_ENCLAVE c \<noteq> SBI_EXT_BASE_PROBE_EXT c"
    "SBI_RUN_ENCLAVE c \<noteq> SBI_MM_INIT c"
    "SBI_RUN_ENCLAVE c \<noteq> SBI_MEMORY_EXTEND c"
    "SBI_RUN_ENCLAVE c \<noteq> SBI_ALLOC_ENCLAVE_MM c"
    "SBI_RUN_ENCLAVE c \<noteq> SBI_CREATE_ENCLAVE c"
  using assms by (auto simp add: case_labels_def)

lemma handler_sbi_run_enclave:
  assumes "distinct (case_labels c)"
  shows "sbi_ecall_base_handler c csr find_ext h scratch extid (SBI_RUN_ENCLAVE c) args ov s =
           sm_outcome ov (Call_sm_run_enclave (args 5) (args 0)) (sm_run_enclave h (args 5) (args
                 0) s)"
  using sbi_run_enclave_not_earlier [OF assms] by (simp add: sbi_ecall_base_handler_def)

lemma sbi_exit_enclave_not_earlier:
  assumes "distinct (case_labels c)"
  shows "SBI_EXIT_ENCLAVE c \<noteq> SBI_EXT_BASE_GET_SPEC_VERSION c"
    "SBI_EXIT_ENCLAVE c \<noteq> SBI_EXT_BASE_GET_IMP_ID c"
    "SBI_EXIT_ENCLAVE c \<noteq> SBI_EXT_BASE_GET_IMP_VERSION c"
    "SBI_EXIT_ENCLAVE c \<noteq> SBI_EXT_BASE_GET_MVENDORID c"
    "SBI_EXIT_ENCLAVE c \<noteq> SBI_EXT_BASE_GET_MARCHID c"
    "SBI_EXIT_ENCLAVE c \<noteq> SBI_EXT_BASE_GET_MIMPID c"
    "SBI_EXIT_ENCLAVE c \<noteq> SBI_EXT_BASE_PROBE_EXT c"
    "SBI_EXIT_ENCLAVE c \<noteq> SBI_MM_INIT c"
    "SBI_EXIT_ENCLAVE c \<noteq> SBI_MEMORY_EXTEND c"
    "SBI_EXIT_ENCLAVE c \<noteq> SBI_ALLOC_ENCLAVE_MM c"
    "SBI_EXIT_ENCLAVE c \<noteq> SBI_CREATE_ENCLAVE c"
    "SBI_EXIT_ENCLAVE c \<noteq> SBI_RUN_ENCLAVE c"
  using assms by (auto simp add: case_labels_def)

lemma handler_sbi_exit_enclave:
  assumes "distinct (case_labels c)"
  shows "sbi_ecall_base_handler c csr find_ext h scratch extid (SBI_EXIT_ENCLAVE c) args ov s =
           sm_outcome ov (Call_sm_exit_enclave (args 5) (args 0)) (sm_exit_enclave h (args 5)
                 (args 0) s)"
  using sbi_exit_enclave_not_earlier [OF assms] by (simp add: sbi_ecall_base_handler_def)


text \<open>
  C1, as stated, at a concrete call: a run-enclave ecall whose argument word 5 is 0. The
  run handler is invoked (the counter state goes from 0 to 1) with the NULL pointer as
  its register-save area.
\<close>

theorem null_regs_pointer_reaches_run_handler:
  "regs_pointers (sm_calls (sbi_ecall_base_handler sample_consts sample_csr sample_extensions
       (const_handlers 0) 0 0x10 97 null_regs_args 0 (0::nat))) = [0]
   \<and> sm_state (sbi_ecall_base_handler sample_consts sample_csr sample_extensions
       (const_handlers 0) 0 0x10 97 null_regs_args 0 (0::nat)) = 1"
  by (simp add: sbi_ecall_base_handler_def sm_outcome_def sample_consts_def
      const_handlers_def null_regs_args_def)

text \<open>
  C1, amended: for every run-enclave and exit-enclave ecall the dispatcher hands argument
  word 5, whatever its value \<open>p\<close>, unchanged to the run or exit handler as the
  register-save area: the handler is applied to \<open>p\<close> itself, and its result and the
  state it leaves are what the ecall gives. The dispatcher performs no check of its own
  on the pointer.
\<close>

theorem regs_pointer_forwarded_unchecked:
  assumes "distinct (case_labels c)"
  shows "sbi_ecall_base_handler c csr find_ext h scratch extid (SBI_RUN_ENCLAVE c)
             (args(5 := p)) ov s =
           \<lparr>ret = ucast (fst (sm_run_enclave h p (args 0) s)), out_val = ov,
            sm_state = snd (sm_run_enclave h p (args 0) s),
            sm_calls = [Call_sm_run_enclave p (args 0)]\<rparr>
       \<and> sbi_ecall_base_handler c csr find_ext h scratch extid (SBI_EXIT_ENCLAVE c)
             (args(5 := p)) ov s =
           \<lparr>ret = ucast (fst (sm_exit_enclave h p (args 0) s)), out_val = ov,
            sm_state = snd (sm_exit_enclave h p (args 0) s),
            sm_calls = [Call_sm_exit_enclave p (args 0)]\<rparr>"
  by (simp add: handler_sbi_run_enclave [OF assms] handler_sbi_exit_enclave [OF assms]
      sm_outcome_def)

theorem regs_pointer_forwarded_unchecked_witness:
  "distinct (case_labels sample_consts)
   \<and> sbi_ecall_base_handler sample_consts sample_csr no_extensions recording_handlers 0 0x10
         97 (sample_args(5 := 0)) 3 [] =
       \<lparr>ret = 7, out_val = 3, sm_state = [0], sm_calls = [Call_sm_run_enclave 0 7]\<rparr>
   \<and> sbi_ecall_base_handler sample_consts sample_csr no_extensions recording_handlers 0 0x10
         98 (sample_args(5 := 0)) 3 [] =
       \<lparr>ret = 7, out_val = 3, sm_state = [0], sm_calls = [Call_sm_exit_enclave 0
             7]\<rparr>"
proof -
  have l: "SBI_RUN_ENCLAVE sample_consts = 97" "SBI_EXIT_ENCLAVE sample_consts = 98"
    by (simp_all add: sample_consts_def)
  have a: "sample_args 0 = 7"
    by (simp add: sample_args_def)
  show ?thesis
    using distinct_sample_labels
      regs_pointer_forwarded_unchecked [OF distinct_sample_labels, where csr = sample_csr
        and find_ext = no_extensions and h = recording_handlers and scratch = 0
        and extid = "0x10" and args = sample_args and p = 0 and ov = 3 and s = "[]"]
    by (simp add: l a recording_handlers_def)
qed

text \<open>
  C2: a function id outside the labels of the dispatcher's switch gives the status
  \<open>SBI_ENOTSUPP\<close>, which is negative, invokes no handler, leaves \<open>*out_val\<close> as it was
  and changes no state.
\<close>

theorem unrecognized_funcid_not_supported:
  assumes "funcid \<notin> set (case_labels c)" and "sint (SBI_ENOTSUPP c) < 0"
  shows "sbi_ecall_base_handler c csr find_ext h scratch extid funcid args ov s =
           \<lparr>ret = SBI_ENOTSUPP c, out_val = ov, sm_state = s, sm_calls = []\<rparr>
         \<and> sint (ret (sbi_ecall_base_handler c csr find_ext h scratch extid funcid args ov
               s)) < 0"
  using assms by (simp add: sbi_ecall_base_handler_def case_labels_def)

theorem unrecognized_funcid_not_supported_witness:
  "7 \<notin> set (case_labels sample_consts) \<and> sint (SBI_ENOTSUPP sample_consts) < 0 \<and>
   sbi_ecall_base_handler sample_consts sample_csr sample_extensions (const_handlers 0) 0 0x10 7
       sample_args 11 (0::nat) =
     \<lparr>ret = - 2, out_val = 11, sm_state = 0, sm_calls = []\<rparr>"
proof -
  have a: "7 \<notin> set (case_labels sample_consts)"
    by (simp add: case_labels_def sample_consts_def)
  have b: "sint (SBI_ENOTSUPP sample_consts) < 0"
    by (simp add: sample_consts_def)
  show ?thesis
    using a b unrecognized_funcid_not_supported [OF a b, of sample_csr sample_extensions
        "const_handlers 0" 0 "0x10" sample_args 11 "0::nat"]
    by (simp add: sample_consts_def)
qed




text \<open>
  C5, as stated, at a concrete call: the memory-pool init handler returns the status
  \<open>0x100000000\<close> and the ecall's result is 0.
\<close>

theorem mm_init_status_narrowed_counterexample:
  "fst (sm_mm_init (const_handlers 0x100000000) (sample_args 0) (sample_args 1) 0)
     = 0x100000000
   \<and> ret (sbi_ecall_base_handler sample_consts sample_csr sample_extensions
       (const_handlers 0x100000000) 0 0x10 100 sample_args 0 (0::nat)) = 0"
  by (simp add: sbi_ecall_base_handler_def sm_outcome_def sample_consts_def
      const_handlers_def)

text \<open>
  C5, amended: for the memory-pool init and memory-pool extend ecalls the dispatcher
  passes argument word 0 as the base and argument word 1 as the size to the init or extend
  handler, and the ecall's result is the status returned by that handler converted to
  \<open>int\<close> (its low 32 bits): exactly the handler's status whenever that status fits in an
  \<open>int\<close>.
\<close>

theorem mm_init_extend_dispatch:
  assumes "distinct (case_labels c)"
  shows "(funcid = SBI_MM_INIT c \<longrightarrow>
            sm_calls (sbi_ecall_base_handler c csr find_ext h scratch extid funcid args ov s) =
                  [Call_sm_mm_init (args 0) (args 1)]
          \<and> ret (sbi_ecall_base_handler c csr find_ext h scratch extid funcid args ov s) =
                ucast (fst (sm_mm_init h (args 0) (args 1) s))
          \<and> (fits_int (fst (sm_mm_init h (args 0) (args 1) s)) \<longrightarrow>
               sint (ret (sbi_ecall_base_handler c csr find_ext h scratch extid funcid args ov
                     s)) = sint (fst (sm_mm_init h (args 0) (args 1) s))))
       \<and> (funcid = SBI_MEMORY_EXTEND c \<longrightarrow>
            sm_calls (sbi_ecall_base_handler c csr find_ext h scratch extid funcid args ov s) =
                  [Call_sm_mm_extend (args 0) (args 1)]
          \<and> ret (sbi_ecall_base_handler c csr find_ext h scratch extid funcid args ov s) =
                ucast (fst (sm_mm_extend h (args 0) (args 1) s))
          \<and> (fits_int (fst (sm_mm_extend h (args 0) (args 1) s)) \<longrightarrow>
               sint (ret (sbi_ecall_base_handler c csr find_ext h scratch extid funcid args ov
                     s)) = sint (fst (sm_mm_extend h (args 0) (args 1) s))))"
  by (simp add: handler_sbi_mm_init [OF assms] handler_sbi_memory_extend [OF assms]
      sm_outcome_def sint_ucast_fits)

theorem mm_init_extend_dispatch_witness:
  "distinct (case_labels sample_consts)
   \<and> sm_calls (sbi_ecall_base_handler sample_consts sample_csr sample_extensions
         (const_handlers (- 1)) 0 0x10 100 sample_args 3 (0::nat)) = [Call_sm_mm_init 7 0x1000]
   \<and> fits_int (fst (sm_mm_init (const_handlers (- 1)) (sample_args 0) (sample_args 1) 0))
   \<and> sint (ret (sbi_ecall_base_handler sample_consts sample_csr sample_extensions
         (const_handlers (- 1)) 0 0x10 100 sample_args 3 (0::nat))) = - 1
   \<and> sm_calls (sbi_ecall_base_handler sample_consts sample_csr sample_extensions
         (const_handlers (- 1)) 0 0x10 92 sample_args 3 (0::nat)) = [Call_sm_mm_extend 7 0x1000]
   \<and> fits_int (fst (sm_mm_extend (const_handlers (- 1)) (sample_args 0) (sample_args 1) 0))
   \<and> sint (ret (sbi_ecall_base_handler sample_consts sample_csr sample_extensions
         (const_handlers (- 1)) 0 0x10 92 sample_args 3 (0::nat))) = - 1"
proof -
  have l: "100 = SBI_MM_INIT sample_consts" "92 = SBI_MEMORY_EXTEND sample_consts"
    by (simp_all add: sample_consts_def)
  have f: "fits_int (- 1)"
    by (simp add: fits_int_def)
  show ?thesis
    using l f distinct_sample_labels
      mm_init_extend_dispatch [OF distinct_sample_labels, of 100 sample_csr sample_extensions
        "const_handlers (- 1)" 0 "0x10" sample_args 3 "0::nat"]
      mm_init_extend_dispatch [OF distinct_sample_labels, of 92 sample_csr sample_extensions
        "const_handlers (- 1)" 0 "0x10" sample_args 3 "0::nat"]
    by (simp add: const_handlers_def sample_args_def sint_ucast_fits [OF f])
qed

text \<open>
  C6, as stated, at a concrete call: the allocation handler returns the region handle
  \<open>0x180000000\<close> and the ecall's result is \<open>0x80000000\<close> as an \<open>int\<close>, a negative
  number.
\<close>

theorem alloc_handle_narrowed_counterexample:
  "fst (sm_alloc_enclave_mem (const_handlers 0x180000000) (sample_args 0) 0) = 0x180000000
   \<and> ret (sbi_ecall_base_handler sample_consts sample_csr sample_extensions
       (const_handlers 0x180000000) 0 0x10 93 sample_args 0 (0::nat)) = 0x80000000
   \<and> sint (ret (sbi_ecall_base_handler sample_consts sample_csr sample_extensions
       (const_handlers 0x180000000) 0 0x10 93 sample_args 0 (0::nat))) < 0"
  by (simp add: sbi_ecall_base_handler_def sm_outcome_def sample_consts_def
      const_handlers_def)

text \<open>
  C6, amended: for the allocate-enclave-memory ecall the dispatcher passes argument word 0
  as the size/descriptor, for the create-enclave ecall it passes argument word 0 as the
  enclave parameter block; in both cases the result is the handler's return value
  converted to \<open>int\<close> (its low 32 bits): exactly the handler's return value whenever that
  value fits in an \<open>int\<close>.
\<close>

theorem alloc_create_dispatch:
  assumes "distinct (case_labels c)"
  shows "(funcid = SBI_ALLOC_ENCLAVE_MM c \<longrightarrow>
            sm_calls (sbi_ecall_base_handler c csr find_ext h scratch extid funcid args ov s) =
                  [Call_sm_alloc_enclave_mem (args 0)]
          \<and> ret (sbi_ecall_base_handler c csr find_ext h scratch extid funcid args ov s) =
                ucast (fst (sm_alloc_enclave_mem h (args 0) s))
          \<and> (fits_int (fst (sm_alloc_enclave_mem h (args 0) s)) \<longrightarrow>
               sint (ret (sbi_ecall_base_handler c csr find_ext h scratch extid funcid args ov
                     s)) = sint (fst (sm_alloc_enclave_mem h (args 0) s))))
       \<and> (funcid = SBI_CREATE_ENCLAVE c \<longrightarrow>
            sm_calls (sbi_ecall_base_handler c csr find_ext h scratch extid funcid args ov s) =
                  [Call_sm_create_enclave (args 0)]
          \<and> ret (sbi_ecall_base_handler c csr find_ext h scratch extid funcid args ov s) =
                ucast (fst (sm_create_enclave h (args 0) s))
          \<and> (fits_int (fst (sm_create_enclave h (args 0) s)) \<longrightarrow>
               sint (ret (sbi_ecall_base_handler c csr find_ext h scratch extid funcid args ov
                     s)) = sint (fst (sm_create_enclave h (args 0) s))))"
  by (simp add: handler_sbi_alloc_enclave_mm [OF assms] handler_sbi_create_enclave [OF assms]
      sm_outcome_def sint_ucast_fits)

theorem alloc_create_dispatch_witness:
  "distinct (case_labels sample_consts)
   \<and> sm_calls (sbi_ecall_base_handler sample_consts sample_csr sample_extensions
         (const_handlers (4)) 0 0x10 93 sample_args 3 (0::nat)) = [Call_sm_alloc_enclave_mem 7]
   \<and> fits_int (fst (sm_alloc_enclave_mem (const_handlers 4) (sample_args 0) 0))
   \<and> sint (ret (sbi_ecall_base_handler sample_consts sample_csr sample_extensions
         (const_handlers (4)) 0 0x10 93 sample_args 3 (0::nat))) = 4
   \<and> sm_calls (sbi_ecall_base_handler sample_consts sample_csr sample_extensions
         (const_handlers (4)) 0 0x10 99 sample_args 3 (0::nat)) = [Call_sm_create_enclave 7]
   \<and> fits_int (fst (sm_create_enclave (const_handlers 4) (sample_args 0) 0))
   \<and> sint (ret (sbi_ecall_base_handler sample_consts sample_csr sample_extensions
         (const_handlers (4)) 0 0x10 99 sample_args 3 (0::nat))) = 4"
proof -
  have l: "93 = SBI_ALLOC_ENCLAVE_MM sample_consts" "99 = SBI_CREATE_ENCLAVE sample_consts"
    by (simp_all add: sample_consts_def)
  have f: "fits_int (4)"
    by (simp add: fits_int_def)
  show ?thesis
    using l f distinct_sample_labels
      alloc_create_dispatch [OF distinct_sample_labels, of 93 sample_csr sample_extensions
        "const_handlers (4)" 0 "0x10" sample_args 3 "0::nat"]
      alloc_create_dispatch [OF distinct_sample_labels, of 99 sample_csr sample_extensions
        "const_handlers (4)" 0 "0x10" sample_args 3 "0::nat"]
    by (simp add: const_handlers_def sample_args_def sint_ucast_fits [OF f])
qed

text \<open>
  C10, as stated, at a concrete call: the extension registered for id \<open>0x09000000\<close> has
  a probe callback that returns \<open>-2\<close>, and so does \<open>sbi_ecall_base_probe\<close>: probing
  that id fails.
\<close>

theorem probe_callback_status_counterexample:
  "fst (sbi_ecall_base_probe sample_extensions 0 0x09000000 0 (0::nat)) = - 2
   \<and> sint (fst (sbi_ecall_base_probe sample_extensions 0 0x09000000 0 (0::nat))) < 0"
  by (simp add: sbi_ecall_base_probe_def sample_extensions_def failing_probe_def)

text \<open>
  C10, amended: \<open>sbi_ecall_base_probe\<close> returns status 0 and writes 0 to \<open>*out_val\<close> when
  no extension is registered for the id, returns status 0 and writes 1 when the registered
  extension has no probe callback, and otherwise returns whatever status and \<open>*out_val\<close>
  the registered extension's own probe callback produces.
\<close>

theorem sbi_ecall_base_probe_cases:
  "(find_ext extid = None \<longrightarrow>
      sbi_ecall_base_probe find_ext scratch extid ov s = (0, 0, s))
   \<and> (find_ext extid = Some ext \<and> probe ext = None \<longrightarrow>
      sbi_ecall_base_probe find_ext scratch extid ov s = (0, 1, s))
   \<and> (find_ext extid = Some ext \<and> probe ext = Some p \<longrightarrow>
      sbi_ecall_base_probe find_ext scratch extid ov s = p scratch extid ov s)"
proof (cases "find_ext extid")
  case None
  then show ?thesis
    by (simp add: sbi_ecall_base_probe_def)
next
  case (Some registered)
  show ?thesis
  proof (cases "probe registered")
    case None
    with Some show ?thesis
      by (simp add: sbi_ecall_base_probe_def)
  next
    case (Some callback)
    with \<open>find_ext extid = Some registered\<close> show ?thesis
      by (simp add: sbi_ecall_base_probe_def)
  qed
qed

theorem sbi_ecall_base_probe_cases_witness:
  "sample_extensions 5 = None
   \<and> sbi_ecall_base_probe sample_extensions 0 5 9 (0::nat) = (0, 0, 0)
   \<and> sample_extensions 0x10 = Some \<lparr>extid_start = 0x10, extid_end = 0x10, probe =
         None\<rparr>
   \<and> sbi_ecall_base_probe sample_extensions 0 0x10 9 (0::nat) = (0, 1, 0)
   \<and> sample_extensions 0x09000000 =
         Some \<lparr>extid_start = 0x09000000, extid_end = 0x09FFFFFF, probe = Some
               failing_probe\<rparr>
   \<and> sbi_ecall_base_probe sample_extensions 0 0x09000000 9 (0::nat) = (- 2, 9, 0)"
proof -
  have a: "sample_extensions 5 = None"
    and b: "sample_extensions 0x10 = Some \<lparr>extid_start = 0x10, extid_end = 0x10, probe =
          None\<rparr>"
    and c: "sample_extensions 0x09000000 =
         Some \<lparr>extid_start = 0x09000000, extid_end = 0x09FFFFFF, probe = Some
               failing_probe\<rparr>"
    by (simp_all add: sample_extensions_def)
  show ?thesis
    using a b c
      sbi_ecall_base_probe_cases [where find_ext = sample_extensions and extid = 5
        and scratch = 0 and ov = 9 and s = "0::nat"]
      sbi_ecall_base_probe_cases [where find_ext = sample_extensions and extid = "0x10"
        and scratch = 0 and ov = 9 and s = "0::nat"
        and ext = "\<lparr>extid_start = 0x10, extid_end = 0x10, probe = None\<rparr>"]
      sbi_ecall_base_probe_cases [where find_ext = sample_extensions and extid = "0x09000000"
        and scratch = 0 and ov = 9 and s = "0::nat" and p = failing_probe
        and ext = "\<lparr>extid_start = 0x09000000, extid_end = 0x09FFFFFF,
                    probe = Some failing_probe\<rparr>"]
    by (simp add: failing_probe_def)
qed




section \<open>Proofs: the IMA interface\<close>

lemma measurements_walk_chain:
  "list_chain ml a xs \<Longrightarrow>
   measurements_walk ml a l = Some (if unat l < length xs then Some (xs ! unat l) else None)"
proof (induction xs arbitrary: a l)
  case Nil
  then show ?case
    by (subst measurements_walk.simps) simp
next
  case (Cons x xs)
  from Cons.prems have a: "a = x" and h: "x \<noteq> list_head ml"
    and c: "list_chain ml (later_next ml x) xs"
    by simp_all
  show ?case
  proof (cases "l = 0")
    case True
    then show ?thesis
      using a h by (subst measurements_walk.simps) simp
  next
    case False
    then have u: "unat (l - 1) = unat l - 1" and pos: "0 < unat l"
      by (simp_all add: unat_minus_one unat_gt_0)
    have "measurements_walk ml a l = measurements_walk ml (later_next ml x) (l - 1)"
      using a h False by (subst measurements_walk.simps) simp
    also have "\<dots> = Some (if unat (l - 1) < length xs then Some (xs ! unat (l - 1)) else
          None)"
      by (rule Cons.IH [OF c])
    also have "\<dots> = Some (if unat l < length (x # xs) then Some ((x # xs) ! unat l) else
          None)"
      using u pos by (cases "unat l") auto
    finally show ?thesis .
  qed
qed

lemma later_next_chain:
  "list_chain ml a xs \<Longrightarrow> p < length xs \<Longrightarrow>
   later_next ml (xs ! p) = (if Suc p < length xs then xs ! Suc p else list_head ml)
   \<and> (Suc p < length xs \<longrightarrow> xs ! Suc p \<noteq> list_head ml)"
proof (induction xs arbitrary: a p)
  case Nil
  then show ?case by simp
next
  case (Cons x xs)
  from Cons.prems have c: "list_chain ml (later_next ml x) xs"
    by simp
  show ?case
  proof (cases p)
    case 0
    then show ?thesis
      using c by (cases xs) simp_all
  next
    case (Suc q)
    then show ?thesis
      using Cons.IH [OF c, of q] Cons.prems(2) by simp
  qed
qed

text \<open>
  C7: where the measurement list holds the records \<open>xs\<close> in insertion order, the iterator
  started at position \<open>pos\<close> returns, and yields the record of index \<open>pos\<close> (the record
  number \<open>pos + 1\<close>) or, once \<open>pos\<close> is past the last element, no record; and a step from
  the record of index \<open>p\<close> yields the record of index \<open>p + 1\<close>, or no record after the
  last one, and advances the position by one.
\<close>

theorem measurements_iterator_in_order:
  assumes "holds_records ml xs"
  shows "ima_measurements_start ml pos
           = Some (if unat pos < length xs then Some (xs ! unat pos) else None)
       \<and> (p < length xs \<longrightarrow>
            ima_measurements_next ml (xs ! p) pos
              = (if Suc p < length xs then Some (xs ! Suc p) else None, pos + 1))"
proof -
  from assms have c: "list_chain ml (later_next ml (list_head ml)) xs"
    by (simp add: holds_records_def)
  have s: "ima_measurements_start ml pos
             = Some (if unat pos < length xs then Some (xs ! unat pos) else None)"
    unfolding ima_measurements_start_def by (rule measurements_walk_chain [OF c])
  have n: "ima_measurements_next ml (xs ! p) pos
             = (if Suc p < length xs then Some (xs ! Suc p) else None, pos + 1)"
    if "p < length xs"
    using later_next_chain [OF c that] by (simp add: ima_measurements_next_def)
  from s n show ?thesis by simp
qed

theorem measurements_iterator_in_order_witness:
  "holds_records sample_list [10, 20, 30]
   \<and> ima_measurements_start sample_list 0 = Some (Some 10)
   \<and> ima_measurements_start sample_list 2 = Some (Some 30)
   \<and> ima_measurements_start sample_list 3 = Some None
   \<and> ima_measurements_next sample_list 10 0 = (Some 20, 1)
   \<and> ima_measurements_next sample_list 30 2 = (None, 3)"
proof -
  have h: "holds_records sample_list [10, 20, 30]"
    by (simp add: holds_records_def sample_list_def sample_links_def)
  show ?thesis
    using h
      measurements_iterator_in_order [OF h, of 0 0]
      measurements_iterator_in_order [OF h, of 2 2]
      measurements_iterator_in_order [OF h, of 3 0]
    by simp
qed

lemma negated_errno_negative:
  assumes "valid_errno x"
  shows "sint (- x) < 0"
proof -
  from assms have r: "1 \<le> sint x" "sint x \<le> 4095"
    by (simp_all add: valid_errno_def)
  have "sint (- x) = signed_take_bit 63 (- sint x)"
    by (simp add: sint_word_ariths)
  also have "\<dots> = - sint x"
    using r by (intro signed_take_bit_int_eq_self) simp_all
  finally show ?thesis
    using r by simp
qed

text \<open>
  C8, as stated, at a concrete call: a write of \<open>64 * 1024 * 1024\<close> bytes to the policy
  file at offset 1. The length exceeds the bound, yet the result is \<open>-EINVAL\<close>, not
  \<open>-EFBIG\<close>; and the write changes state: \<open>valid_policy\<close> goes from 1 to 0.
\<close>

theorem write_failure_clears_valid_policy_counterexample:
  "fst (ima_write_data sample_errno sample_env (Dentry 6) 67108864 1 sample_state) = - 22
   \<and> fst (ima_write_data sample_errno sample_env (Dentry 6) 67108864 1 sample_state)
       \<noteq> - EFBIG sample_errno
   \<and> valid_policy (statics sample_state) = 1
   \<and> valid_policy (statics (snd (ima_write_data sample_errno sample_env (Dentry 6) 67108864 1
         sample_state))) = 0"
  by (simp add: ima_write_data_def ima_write_data_out_def sample_errno_def sample_state_def
      sample_statics_def initial_statics_def)

text \<open>
  C8, amended: every write to an IMA data-upload file issued at a nonzero file offset
  fails with \<open>-EINVAL\<close>, and every write at offset zero whose length exceeds
  \<open>64 * 1024 * 1024 - 1\<close> bytes fails with \<open>-EFBIG\<close>; in both cases the failure occurs
  before any data is copied from user space, no policy rule and no digest list changes,
  and the only state that changes is \<open>valid_policy\<close>, which is cleared when the file is
  the policy file.
\<close>

theorem write_data_early_failures:
  assumes "errno_ok e"
  shows "(ppos \<noteq> 0 \<longrightarrow> fst (ima_write_data e env dentry datalen ppos st) = -
        EINVAL e)
       \<and> (ppos = 0 \<and> 64 * 1024 * 1024 - 1 < datalen \<longrightarrow>
            fst (ima_write_data e env dentry datalen ppos st) = - EFBIG e)
       \<and> (ppos \<noteq> 0 \<or> 64 * 1024 * 1024 - 1 < datalen \<longrightarrow>
            events (snd (ima_write_data e env dentry datalen ppos st)) = events st
          \<and> policy (snd (ima_write_data e env dentry datalen ppos st)) = policy st
          \<and> statics (snd (ima_write_data e env dentry datalen ppos st)) =
              (if dentry = ima_policy (statics st) then (statics st)\<lparr>valid_policy :=
                    0\<rparr>
               else statics st))"
proof -
  from assms have n: "sint (- EINVAL e) < 0" "sint (- EFBIG e) < 0"
    by (simp_all add: errno_ok_def negated_errno_negative)
  show ?thesis
    using n by (simp add: ima_write_data_def ima_write_data_out_def)
qed

theorem write_data_early_failures_witness:
  "errno_ok sample_errno
   \<and> ima_write_data sample_errno sample_env (Dentry 8) 5 1 sample_state = (- 22,
         sample_state)
   \<and> ima_write_data sample_errno sample_env (Dentry 8) 67108864 0 sample_state
       = (- 27, sample_state)
   \<and> ima_write_data sample_errno sample_env (Dentry 6) 67108864 0 sample_state
       = (- 27, sample_state\<lparr>statics := sample_statics\<lparr>valid_policy :=
             0\<rparr>\<rparr>)"
proof -
  have ok: "errno_ok sample_errno"
    by (simp add: errno_ok_def valid_errno_def sample_errno_def)
  have d: "Dentry 8 \<noteq> ima_policy (statics sample_state)"
    "Dentry 6 = ima_policy (statics sample_state)"
    by (simp_all add: sample_state_def sample_statics_def)
  have v: "EINVAL sample_errno = 22" "EFBIG sample_errno = 27"
    by (simp_all add: sample_errno_def)
  have st: "statics sample_state = sample_statics"
    by (simp add: sample_state_def)
  show ?thesis
    using ok d
      write_data_early_failures [OF ok, of 1 sample_env "Dentry 8" 5 sample_state]
      write_data_early_failures [OF ok, of 0 sample_env "Dentry 8" 67108864 sample_state]
      write_data_early_failures [OF ok, of 0 sample_env "Dentry 6" 67108864 sample_state]
    by (simp add: v st prod_eq_iff ima_state.equality)
qed

lemma create_or_out_step:
  assumes "\<And>e. fails name kind = Some e \<Longrightarrow> Q (ima_fs_init_out (store (ERR_PTR
        e) g) fs)"
    and "\<And>fs'. fails name kind = None \<Longrightarrow>
           entries fs' = entries fs @ [(next_dentry fs, name, kind)] \<Longrightarrow>
           next_dentry fs' = Suc (next_dentry fs) \<Longrightarrow>
           Q (rest (store (Dentry (next_dentry fs)) g) fs')"
  shows "Q (create_or_out (securityfs_create fails name kind fs) store g rest)"
proof (cases "fails name kind")
  case None
  then show ?thesis
    using assms(2) [of "fs\<lparr>entries := entries fs @ [(next_dentry fs, name, kind)],
                          next_dentry := Suc (next_dentry fs)\<rparr>"]
    by (simp add: create_or_out_def securityfs_create_def)
next
  case (Some e)
  then show ?thesis
    using assms(1) [of e] by (simp add: create_or_out_def securityfs_create_def)
qed

lemma securityfs_remove_subset:
  "set (entries (securityfs_remove d fs)) \<subseteq> set (entries fs)"
  by (cases d) auto

lemma securityfs_remove_all_subset:
  "set (entries (foldl (\<lambda>fs' d. securityfs_remove d fs') fs ds)) \<subseteq> set (entries
        fs)"
proof (induction ds arbitrary: fs)
  case Nil
  then show ?case by simp
next
  case (Cons d ds)
  have "set (entries (foldl (\<lambda>fs' d. securityfs_remove d fs') (securityfs_remove d fs)
        ds))
          \<subseteq> set (entries (securityfs_remove d fs))"
    by (rule Cons.IH)
  then show ?case
    using securityfs_remove_subset [of d fs] by auto
qed

lemma init_out_covered:
  assumes "htable_files_covered cfg g fs"
  shows "htable_files_covered cfg (fst (snd (ima_fs_init_out g fs)))
           (snd (snd (ima_fs_init_out g fs)))"
proof -
  have sub: "set (entries (snd (snd (ima_fs_init_out g fs)))) \<subseteq> set (entries fs)"
    unfolding ima_fs_init_out_def snd_conv by (rule securityfs_remove_all_subset)
  have g: "fst (snd (ima_fs_init_out g fs)) = g"
    by (simp add: ima_fs_init_out_def)
  show ?thesis
    using assms sub unfolding htable_files_covered_def g by blast
qed

lemma ima_fs_init_covered:
  assumes "\<forall>x \<in> set (entries fs0). snd (snd x) \<noteq> File ima_htable_value_ops"
  shows "htable_files_covered cfg (fst (snd (ima_fs_init cfg fails g0 fs0)))
           (snd (snd (ima_fs_init cfg fails g0 fs0)))"
proof (cases "fails ''ima'' Directory")
  case (Some e)
  then show ?thesis
    using assms
    by (simp add: ima_fs_init_def securityfs_create_def htable_files_covered_def)
next
  case None
  define fs1 where
    "fs1 = fs0\<lparr>entries := entries fs0 @ [(next_dentry fs0, ''ima'', Directory)],
               next_dentry := Suc (next_dentry fs0)\<rparr>"
  have first: "securityfs_create fails ''ima'' Directory fs0 = (Dentry (next_dentry fs0), fs1)"
    by (simp add: securityfs_create_def None fs1_def)
  have fs1: "\<forall>x \<in> set (entries fs1). snd (snd x) \<noteq> File ima_htable_value_ops"
    using assms by (simp add: fs1_def)
  show ?thesis
    unfolding ima_fs_init_def first prod.case IS_ERR.simps if_False
    apply (insert fs1)
    apply (rule create_or_out_step [where Q = "\<lambda>r. htable_files_covered cfg (fst (snd r))
          (snd (snd r))"])
     apply (rule init_out_covered)
     apply (simp add: htable_files_covered_def htable_val_def)
    apply (rule create_or_out_step [where Q = "\<lambda>r. htable_files_covered cfg (fst (snd r))
          (snd (snd r))"])
     apply (rule init_out_covered)
     apply (simp add: htable_files_covered_def htable_val_def)
    apply (rule create_or_out_step [where Q = "\<lambda>r. htable_files_covered cfg (fst (snd r))
          (snd (snd r))"])
     apply (rule init_out_covered)
     apply (simp add: htable_files_covered_def htable_val_def)
    apply (rule create_or_out_step [where Q = "\<lambda>r. htable_files_covered cfg (fst (snd r))
          (snd (snd r))"])
     apply (rule init_out_covered)
     apply (simp add: htable_files_covered_def htable_val_def)
    apply (rule create_or_out_step [where Q = "\<lambda>r. htable_files_covered cfg (fst (snd r))
          (snd (snd r))"])
     apply (rule init_out_covered)
     apply (simp add: htable_files_covered_def htable_val_def)
    apply (rule create_or_out_step [where Q = "\<lambda>r. htable_files_covered cfg (fst (snd r))
          (snd (snd r))"])
     apply (rule init_out_covered)
     apply (simp add: htable_files_covered_def htable_val_def)
    apply (cases cfg)
     apply (simp only: if_True)
     apply (rule create_or_out_step [where Q = "\<lambda>r. htable_files_covered True (fst (snd
           r)) (snd (snd r))"])
      apply (rule init_out_covered)
     apply (simp add: htable_files_covered_def htable_val_def)
     apply (rule create_or_out_step [where Q = "\<lambda>r. htable_files_covered True (fst (snd
           r)) (snd (snd r))"])
      apply (rule init_out_covered)
     apply (simp add: htable_files_covered_def htable_val_def)
     apply (rule create_or_out_step [where Q = "\<lambda>r. htable_files_covered True (fst (snd
           r)) (snd (snd r))"])
      apply (rule init_out_covered)
     apply (simp add: htable_files_covered_def htable_val_def)
     apply (simp add: htable_files_covered_def htable_val_def)
    apply (simp add: htable_files_covered_def htable_val_def)
    done
qed

lemma sample_ima_fs_init:
  "ima_fs_init True no_failures initial_statics empty_securityfs =
   (0, \<lparr>ima_dir = Dentry 1, ima_symlink = Dentry 2, binary_runtime_measurements = Dentry 3,
      ascii_runtime_measurements = Dentry 4, runtime_measurements_count = Dentry 5,
      violations = Dentry 6, ima_policy = Dentry 7, digests_count = Dentry 8,
      digest_list_data = Dentry 9, digest_list_data_del = Dentry 10, valid_policy = 1\<rparr>,
    \<lparr>entries = [(1, ''ima'', Directory), (2, ''ima'', Symlink),
        (3, ''binary_runtime_measurements'', File ima_measurements_ops),
        (4, ''ascii_runtime_measurements'', File ima_ascii_measurements_ops),
        (5, ''runtime_measurements_count'', File ima_htable_value_ops),
        (6, ''violations'', File ima_htable_value_ops),
        (7, ''policy'', File ima_data_upload_ops),
        (8, ''digests_count'', File ima_htable_value_ops),
        (9, ''digest_list_data'', File ima_data_upload_ops),
        (10, ''digest_list_data_del'', File ima_data_upload_ops)], next_dentry = 11\<rparr>)"
  by (simp add: ima_fs_init_def create_or_out_def securityfs_create_def no_failures_def
      initial_statics_def empty_securityfs_def)

text \<open>
  C9: after \<open>ima_fs_init\<close>, run on a securityfs in which no file carries
  \<open>ima_htable_value_ops\<close> yet, every file that carries them has as its dentry one of
  \<open>violations\<close>, \<open>runtime_measurements_count\<close> or, when digest lists are configured,
  \<open>digests_count\<close>; so \<open>ima_show_htable_value\<close> on such a file selects a counter and
  does not dereference NULL.
\<close>

theorem htable_value_read_never_null:
  assumes "\<forall>x \<in> set (entries fs0). snd (snd x) \<noteq> File ima_htable_value_ops"
  shows "\<forall>x \<in> set (entries (snd (snd (ima_fs_init cfg fails g0 fs0)))).
           snd (snd x) = File ima_htable_value_ops \<longrightarrow>
             (Dentry (fst x) = violations (fst (snd (ima_fs_init cfg fails g0 fs0)))
              \<or> Dentry (fst x) = runtime_measurements_count (fst (snd (ima_fs_init cfg fails
                    g0 fs0)))
              \<or> cfg \<and> Dentry (fst x) = digests_count (fst (snd (ima_fs_init cfg fails g0
                    fs0))))
           \<and> ima_show_htable_value cfg scnprintf_li simple_read_from_buffer
                (fst (snd (ima_fs_init cfg fails g0 fs0))) counters (Dentry (fst x)) count ppos
               \<noteq> Inl NULL_DEREFERENCE"
proof (intro ballI impI)
  fix x
  assume x: "x \<in> set (entries (snd (snd (ima_fs_init cfg fails g0 fs0))))"
    and k: "snd (snd x) = File ima_htable_value_ops"
  let ?g = "fst (snd (ima_fs_init cfg fails g0 fs0))"
  have v: "htable_val cfg ?g (Dentry (fst x)) \<noteq> None"
    using ima_fs_init_covered [OF assms, of cfg fails g0] x k
    unfolding htable_files_covered_def by blast
  have d: "Dentry (fst x) = violations ?g \<or> Dentry (fst x) = runtime_measurements_count ?g
           \<or> cfg \<and> Dentry (fst x) = digests_count ?g"
    using v by (simp add: htable_val_def split: if_splits)
  have r: "ima_show_htable_value cfg scnprintf_li simple_read_from_buffer ?g counters
             (Dentry (fst x)) count ppos \<noteq> Inl NULL_DEREFERENCE"
    using v by (auto simp add: ima_show_htable_value_def)
  from d r show "(Dentry (fst x) = violations ?g \<or> Dentry (fst x) =
        runtime_measurements_count ?g
           \<or> cfg \<and> Dentry (fst x) = digests_count ?g)
         \<and> ima_show_htable_value cfg scnprintf_li simple_read_from_buffer ?g counters
             (Dentry (fst x)) count ppos \<noteq> Inl NULL_DEREFERENCE"
    by simp
qed

theorem htable_value_read_never_null_witness:
  "entries empty_securityfs = []
   \<and> (8, ''digests_count'', File ima_htable_value_ops) \<in> set (entries (snd (snd (ima_fs_init True no_failures initial_statics empty_securityfs))))
   \<and> digests_count (fst (snd (ima_fs_init True no_failures initial_statics
         empty_securityfs))) = Dentry 8
   \<and> ima_show_htable_value True sample_scnprintf_li sample_read_from_buffer
        (fst (snd (ima_fs_init True no_failures initial_statics empty_securityfs)))
              sample_counters (Dentry 8) 32 0
       \<noteq> Inl NULL_DEREFERENCE"
proof -
  have c1: "entries empty_securityfs = []"
    by (simp add: empty_securityfs_def)
  have e: "\<forall>x \<in> set (entries empty_securityfs). snd (snd x) \<noteq> File
        ima_htable_value_ops"
    by (simp add: c1)
  have m: "(8, ''digests_count'', File ima_htable_value_ops) \<in> set (entries (snd (snd (ima_fs_init True no_failures initial_statics empty_securityfs))))"
    by (simp add: sample_ima_fs_init)
  have c3: "digests_count (fst (snd (ima_fs_init True no_failures initial_statics
        empty_securityfs))) = Dentry 8"
    by (simp add: sample_ima_fs_init)
  have c4: "ima_show_htable_value True sample_scnprintf_li sample_read_from_buffer
          (fst (snd (ima_fs_init True no_failures initial_statics empty_securityfs))) sample_counters (Dentry (fst (8::nat, ''digests_count'',
             File ima_htable_value_ops))) 32 0 \<noteq> Inl NULL_DEREFERENCE"
    using htable_value_read_never_null [OF e, of True no_failures initial_statics
        sample_scnprintf_li sample_read_from_buffer sample_counters 32 0] m
    by fastforce
  from c1 m c3 c4 show ?thesis
    by simp
qed

end
